theory Spec2Isabelle
  imports Complex_Main "HOL-Library.Char_ord"
begin

section \<open>The order-execution engine of trading\_bot.py\<close>

text \<open>
  A shallow embedding of \<^verbatim>\<open>BasicBot\<close> (src/trading\_bot.py, with the older single-order
  variant of src/bot.py beside it).

  Conventions of the embedding.
  \<^item> Numbers. A Python float is read as the rational it denotes; infinities and NaN are
    outside the model. \<^verbatim>\<open>_adjust_precision\<close> is modelled with the arithmetic it runs: the
    conversion \<^verbatim>\<open>Decimal(value)\<close> is exact, \<^verbatim>\<open>//\<close> and \<^verbatim>\<open>*\<close> follow the default Decimal context
    (28 significant digits, round half even), and \<^verbatim>\<open>float(quantized)\<close> rounds to the nearest
    double, ties to even. The two divisions of the strategies and \<^verbatim>\<open>np.linspace\<close> are exact
    arithmetic on the rationals.
  \<^item> Strings are byte strings, the UTF-8 form of a Python \<^verbatim>\<open>str\<close>. \<^verbatim>\<open>str.upper\<close> maps the
    ASCII letters a..z to A..Z and leaves the other ASCII bytes; text outside ASCII is
    upper-cased by the Unicode tables of the runtime, which are a parameter of the model.
  \<^item> Exceptions are values: every function returns \<open>py_error + result\<close>, \<open>Inl\<close> the
    exception that propagates to the caller.
  \<^item> Effects are a trace: the calls of \<^verbatim>\<open>client.futures_create_order\<close> and of
    \<^verbatim>\<open>time.sleep\<close>, in the order they happen. A function takes the trace so far and
    returns the extended one. The exchange is a parameter of the bot: what it answers to
    a request may depend on everything that happened before.
  \<^item> Logging has no influence on results or control flow and is left out.
\<close>

subsection \<open>Data\<close>

text \<open>
  The exceptions that can leave the functions below. \<open>DecimalDivisionByZero\<close> and
  \<open>DecimalInvalidOperation\<close> are the two signals of the \<^verbatim>\<open>decimal\<close> module;
  \<open>BinanceAPIException\<close> carries the status code and the message of the exchange, and
  \<open>OtherException\<close> is any other exception of the client.
\<close>

datatype py_error =
    ValueError string
  | ZeroDivisionError
  | KeyError string
  | DecimalDivisionByZero
  | DecimalInvalidOperation
  | BinanceAPIException int string
  | OtherException string

text \<open>
  One entry of a symbol's \<^verbatim>\<open>filters\<close> list in the exchange info. \<open>stepSize\<close> and
  \<open>tickSize\<close> hold the value of the decimal string under that key, \<open>None\<close> when the key
  is absent.
\<close>

record exchange_filter =
  filterType :: string
  stepSize :: "rat option"
  tickSize :: "rat option"

text \<open>The keyword arguments of \<^verbatim>\<open>futures_create_order\<close>; an absent key is \<open>None\<close>.\<close>

record order_params =
  param_symbol :: string
  param_side :: string
  param_type :: string
  param_quantity :: rat
  param_price :: "rat option"
  param_stopPrice :: "rat option"
  param_timeInForce :: "string option"

datatype event = Submit order_params | Sleep rat

subsection \<open>Library functions the code calls\<close>

text \<open>
  \<^verbatim>\<open>str.upper\<close> works code point by code point. On the bytes of a string: an ASCII byte is a
  code point of its own, and \<open>upper_char\<close> is what becomes of it; a maximal run of bytes
  outside ASCII is a piece of text outside ASCII, and the table \<open>U\<close> says what becomes of it
  (\<open>U\<close> of the two bytes of U+00E9 is the two bytes of U+00C9, \<open>U\<close> of the two bytes of
  U+00DF is \<open>''SS''\<close>).
\<close>

definition ascii :: "char \<Rightarrow> bool" where
  "ascii c = ((of_char c :: nat) < 128)"

definition upper_char :: "char \<Rightarrow> char" where
  "upper_char c =
     (let n = (of_char c :: nat) in if 97 \<le> n \<and> n \<le> 122 then char_of (n - 32) else c)"

fun upper_runs :: "(string \<Rightarrow> string) \<Rightarrow> string \<Rightarrow> string \<Rightarrow> string" where
  "upper_runs U run [] = (if run = [] then [] else U run)"
| "upper_runs U run (c # cs) =
     (if ascii c then (if run = [] then [] else U run) @ upper_char c # upper_runs U [] cs
      else upper_runs U (run @ [c]) cs)"

text \<open>
  The tables of the runtime are not part of the repository. One fact about them is part
  of the model: upper-casing an upper-cased string changes nothing, as is the case for
  every code point of \<^verbatim>\<open>str.upper\<close>.
\<close>

typedef unicode_upper =
  "{U :: string \<Rightarrow> string. \<forall>s. upper_runs U [] (upper_runs U [] s) = upper_runs U [] s}"
proof
  have run: "upper_runs (\<lambda>r. r) run s = run @ map upper_char s" for run s
  proof (induction s arbitrary: run)
    case Nil
    then show ?case by simp
  next
    case (Cons c cs)
    have "\<not> ascii c \<Longrightarrow> upper_char c = c"
      by (auto simp: ascii_def upper_char_def Let_def)
    with Cons show ?case by simp
  qed
  have "of_char (upper_char c) = (of_char c :: nat) - 32"
    if "97 \<le> (of_char c :: nat)" "(of_char c :: nat) \<le> 122" for c
  proof -
    have "(of_char c - 32 :: nat) mod 256 = of_char c - 32" using that by simp
    then show ?thesis using that by (simp add: upper_char_def Let_def)
  qed
  then have "upper_char (upper_char c) = upper_char c" for c
    by (cases "97 \<le> (of_char c :: nat) \<and> (of_char c :: nat) \<le> 122")
      (auto simp: upper_char_def Let_def)
  then have "upper_runs (\<lambda>r. r) [] (upper_runs (\<lambda>r. r) [] s) = upper_runs (\<lambda>r. r) [] s" for s
    by (simp add: run)
  then show "(\<lambda>r. r) \<in> {U :: string \<Rightarrow> string.
      \<forall>s. upper_runs U [] (upper_runs U [] s) = upper_runs U [] s}"
    by simp
qed

text \<open>
  \<^verbatim>\<open>self\<close>: the exchange client (its answer to a request, given the trace so far) and
  \<^verbatim>\<open>self.filters\<close>, loaded once by the constructor. The record also carries the runtime's
  table for \<^verbatim>\<open>str.upper\<close>.
\<close>

record 'r bot =
  client :: "event list \<Rightarrow> order_params \<Rightarrow> py_error + 'r"
  filters :: "string \<rightharpoonup> exchange_filter list"
  str_upper :: unicode_upper

definition upper :: "'r bot \<Rightarrow> string \<Rightarrow> string" where
  "upper self s = upper_runs (Rep_unicode_upper (str_upper self)) [] s"

text \<open>
  Rounding to \<open>p\<close> significant digits in base \<open>b\<close>, half to even, with no digit below the
  position \<open>emin\<close>. \<open>digit_count b n\<close> is the number of digits of \<open>n > 0\<close> in base \<open>b\<close>, and
  \<open>ilog b x\<close> the exponent of the leading digit of \<open>x > 0\<close>: the \<open>e\<close> with
  \<open>b ^ e \<le> x < b ^ (e + 1)\<close>.
\<close>

definition round_half_even :: "rat \<Rightarrow> int" where
  "round_half_even x =
     (let f = \<lfloor>x\<rfloor>; d = x - of_int f
      in if d < 1 / 2 then f else if 1 / 2 < d then f + 1 else if even f then f else f + 1)"

function digit_count :: "int \<Rightarrow> int \<Rightarrow> int" where
  "digit_count b n = (if 0 < n \<and> 1 < b then 1 + digit_count b (n div b) else 0)"
  by pat_completeness auto
termination
  by (relation "measure (\<lambda>(b, n). nat n)") (auto simp: int_div_less_self)

definition ilog :: "int \<Rightarrow> rat \<Rightarrow> int" where
  "ilog b x =
     (let (n, d) = quotient_of x;
          e = digit_count b n - digit_count b d
      in if of_int b powi e \<le> x then e else e - 1)"

definition round_to_precision :: "int \<Rightarrow> int \<Rightarrow> int \<Rightarrow> rat \<Rightarrow> rat" where
  "round_to_precision b p emin x =
     (if x = 0 then 0
      else
        let e = max (ilog b \<bar>x\<bar> - (p - 1)) emin;
            u = of_int b powi e
        in of_int (round_half_even (x / u)) * u)"

text \<open>
  The three operations of lines 37-40 on the values of the Decimals, in the default
  context: precision 28, \<^verbatim>\<open>ROUND_HALF_EVEN\<close>, least exponent \<^verbatim>\<open>Etiny\<close> = -1000026.

  \<^verbatim>\<open>a // b\<close>: the integer part of the quotient, truncated towards zero. A zero divisor
  raises \<^verbatim>\<open>DivisionByZero\<close>, \<^verbatim>\<open>0 // 0\<close> raises \<^verbatim>\<open>InvalidOperation\<close>, and so does a quotient of
  more than 28 digits. \<^verbatim>\<open>a * b\<close>: the product, rounded to 28 significant digits.
  \<^verbatim>\<open>float(d)\<close>: the nearest double, 53 significant bits and none below 2 ^ -1074.

  The product is at most the value in magnitude, and the value is a double: the overflow
  of the Decimal context (exponent above 999999) and of the double (to an infinity)
  cannot happen on this path, and they are not modelled.
\<close>

definition decimal_floordiv :: "rat \<Rightarrow> rat \<Rightarrow> py_error + int" where
  "decimal_floordiv a b =
     (if b = 0 then (if a = 0 then Inl DecimalInvalidOperation else Inl DecimalDivisionByZero)
      else
        let q = \<lfloor>\<bar>a\<bar> / \<bar>b\<bar>\<rfloor>
        in if 10 ^ 28 \<le> q then Inl DecimalInvalidOperation
           else if (a < 0) = (b < 0) then Inr q
           else Inr (- q))"

definition decimal_mul :: "rat \<Rightarrow> rat \<Rightarrow> rat" where
  "decimal_mul a b = round_to_precision 10 28 (- 1000026) (a * b)"

definition float_of_decimal :: "rat \<Rightarrow> rat" where
  "float_of_decimal d = round_to_precision 2 53 (- 1074) d"

text \<open>\<^verbatim>\<open>time.sleep(d)\<close> raises \<^verbatim>\<open>ValueError\<close> on a negative length.\<close>

definition py_sleep :: "event list \<Rightarrow> rat \<Rightarrow> (py_error + unit) \<times> event list" where
  "py_sleep tr d =
     (if d < 0 then (Inl (ValueError ''sleep length must be non-negative''), tr)
      else (Inr (), tr @ [Sleep d]))"

text \<open>
  \<^verbatim>\<open>numpy.linspace(start, stop, num)\<close>, as the library computes it: the points
  \<open>start + i * step\<close> for \<open>i = 0 .. num - 1\<close> with \<open>step = (stop - start) / (num - 1)\<close>, the
  last of them set to \<open>stop\<close> itself when \<open>num > 1\<close>; the single point \<open>start\<close> when
  \<open>num = 1\<close>, no point when \<open>num = 0\<close>, and \<^verbatim>\<open>ValueError\<close> on a negative \<open>num\<close> (its message
  without the number).
\<close>

definition linspace :: "rat \<Rightarrow> rat \<Rightarrow> int \<Rightarrow> py_error + rat list" where
  "linspace start stop num =
     (if num < 0 then Inl (ValueError ''Number of samples must be non-negative'')
      else
        let dv = num - 1;
            delta = stop - start;
            y = (if dv > 0 then map (\<lambda>i. of_int i * (delta / of_int dv) + start) [0..num - 1]
                 else map (\<lambda>i. of_int i * delta + start) [0..num - 1])
        in Inr (if num > 1 then y[nat (num - 1) := stop] else y))"

subsection \<open>Precision\<close>

text \<open>
  \<^verbatim>\<open>_adjust_precision\<close>, lines 31-41. The loop over the symbol's filters returns at the
  first filter of the requested type; when there is none, or the symbol is unknown, the
  value comes back unchanged. \<open>val\<close> is the value of \<^verbatim>\<open>Decimal(value)\<close>, which is the value of
  the float.
\<close>

fun adjust_loop :: "exchange_filter list \<Rightarrow> rat \<Rightarrow> string \<Rightarrow> py_error + rat" where
  "adjust_loop [] val filter_type = Inr val"
| "adjust_loop (f # fs) val filter_type =
     (if filterType f = filter_type then
        (case (if filter_type = ''LOT_SIZE'' then
                 (case stepSize f of None \<Rightarrow> Inl (KeyError ''stepSize'') | Some st \<Rightarrow> Inr st)
               else
                 (case tickSize f of None \<Rightarrow> Inl (KeyError ''tickSize'') | Some st \<Rightarrow> Inr st))
         of Inl e \<Rightarrow> Inl e
          | Inr step \<Rightarrow>
              (case decimal_floordiv val step of
                 Inl e \<Rightarrow> Inl e
               | Inr q \<Rightarrow> Inr (float_of_decimal (decimal_mul (of_int q) step))))
      else adjust_loop fs val filter_type)"

definition adjust_precision :: "'r bot \<Rightarrow> string \<Rightarrow> rat \<Rightarrow> string \<Rightarrow> py_error + rat" where
  "adjust_precision self symbol val filter_type =
     (let sym_filters = (case filters self (upper self symbol) of None \<Rightarrow> [] | Some fs \<Rightarrow> fs)
      in adjust_loop sym_filters val filter_type)"

text \<open>The step a filter carries for the requested type, as line 36 selects it.\<close>

definition step_of :: "string \<Rightarrow> exchange_filter \<Rightarrow> rat option" where
  "step_of filter_type f = (if filter_type = ''LOT_SIZE'' then stepSize f else tickSize f)"

subsection \<open>Single orders\<close>

text \<open>
  \<^verbatim>\<open>place_order\<close>, lines 43-103, in two parts. \<open>build_params\<close> is lines 49-91: the
  quantity is normalised first, then the chain over \<^verbatim>\<open>order_type\<close> builds \<^verbatim>\<open>params\<close> or
  raises. \<open>place_order\<close> adds the \<^verbatim>\<open>try\<close> block of lines 93-103: one call of the endpoint,
  whose exception is logged and raised again unchanged.
\<close>

definition build_params ::
  "'r bot \<Rightarrow> string \<Rightarrow> string \<Rightarrow> string \<Rightarrow> rat \<Rightarrow> rat option \<Rightarrow> rat option \<Rightarrow> py_error + order_params"
where
  "build_params self symbol side order_type quantity price stop_price =
     (let s = upper self symbol in
      case adjust_precision self s quantity ''LOT_SIZE'' of
        Inl e \<Rightarrow> Inl e
      | Inr qty \<Rightarrow>
          if order_type = ''MARKET'' then
            Inr \<lparr>param_symbol = s, param_side = upper self side, param_type = ''MARKET'',
                 param_quantity = qty, param_price = None, param_stopPrice = None,
                 param_timeInForce = None\<rparr>
          else if order_type = ''LIMIT'' then
            (case price of
               None \<Rightarrow> Inl (ValueError ''Price required for LIMIT orders'')
             | Some p \<Rightarrow>
                 (case adjust_precision self s p ''PRICE_FILTER'' of
                    Inl e \<Rightarrow> Inl e
                  | Inr pr \<Rightarrow>
                      Inr \<lparr>param_symbol = s, param_side = upper self side, param_type = ''LIMIT'',
                           param_quantity = qty, param_price = Some pr, param_stopPrice = None,
                           param_timeInForce = Some ''GTC''\<rparr>))
          else if order_type = ''STOP_LIMIT'' then
            (case (price, stop_price) of
               (Some p, Some stp) \<Rightarrow>
                 (case adjust_precision self s p ''PRICE_FILTER'' of
                    Inl e \<Rightarrow> Inl e
                  | Inr pr \<Rightarrow>
                      (case adjust_precision self s stp ''PRICE_FILTER'' of
                         Inl e \<Rightarrow> Inl e
                       | Inr sp \<Rightarrow>
                           Inr \<lparr>param_symbol = s, param_side = upper self side, param_type = ''STOP'',
                                param_quantity = qty, param_price = Some pr,
                                param_stopPrice = Some sp, param_timeInForce = Some ''GTC''\<rparr>))
             | _ \<Rightarrow> Inl (ValueError ''Both stop_price and price required for STOP_LIMIT''))
          else Inl (ValueError (''Unsupported order type: '' @ order_type)))"

definition place_order ::
  "'r bot \<Rightarrow> event list \<Rightarrow> string \<Rightarrow> string \<Rightarrow> string \<Rightarrow> rat \<Rightarrow> rat option \<Rightarrow> rat option
   \<Rightarrow> (py_error + 'r) \<times> event list"
where
  "place_order self tr symbol side order_type quantity price stop_price =
     (case build_params self symbol side order_type quantity price stop_price of
        Inl e \<Rightarrow> (Inl e, tr)
      | Inr params \<Rightarrow> (client self tr params, tr @ [Submit params]))"

text \<open>
  \<^verbatim>\<open>place_order\<close> of src/bot.py, lines 25-50: no precision rules, no stop price, and the
  order type is upper-cased and passed on whatever it is.
\<close>

definition place_order_basic ::
  "'r bot \<Rightarrow> event list \<Rightarrow> string \<Rightarrow> string \<Rightarrow> string \<Rightarrow> rat \<Rightarrow> rat option
   \<Rightarrow> (py_error + 'r) \<times> event list"
where
  "place_order_basic self tr symbol side order_type quantity price =
     (let params = \<lparr>param_symbol = upper self symbol, param_side = upper self side,
                     param_type = upper self order_type, param_quantity = quantity,
                     param_price = None, param_stopPrice = None, param_timeInForce = None\<rparr>
      in if upper self order_type = ''LIMIT'' then
           (case price of
              None \<Rightarrow> (Inl (ValueError ''Price must be provided for LIMIT orders''), tr)
            | Some p \<Rightarrow>
                (let params' = params\<lparr>param_price := Some p, param_timeInForce := Some ''GTC''\<rparr>
                 in (client self tr params', tr @ [Submit params'])))
         else (client self tr params, tr @ [Submit params]))"

subsection \<open>Strategies\<close>

text \<open>
  The loop of \<^verbatim>\<open>execute_twap\<close>, lines 111-115, over the indices \<^verbatim>\<open>range(intervals)\<close> still
  to run. An exception of \<^verbatim>\<open>place_order\<close> or of \<^verbatim>\<open>time.sleep\<close> leaves the loop and the function:
  the list \<^verbatim>\<open>results\<close> is a local variable and is gone with the frame.
\<close>

fun twap_loop ::
  "'r bot \<Rightarrow> string \<Rightarrow> string \<Rightarrow> rat \<Rightarrow> rat \<Rightarrow> int \<Rightarrow> int list \<Rightarrow> 'r list \<Rightarrow> event list
   \<Rightarrow> (py_error + 'r list) \<times> event list"
where
  "twap_loop self symbol side slice_qty delay intervals [] results tr = (Inr results, tr)"
| "twap_loop self symbol side slice_qty delay intervals (i # rest) results tr =
     (case place_order self tr symbol side ''MARKET'' slice_qty None None of
        (Inl e, tr') \<Rightarrow> (Inl e, tr')
      | (Inr res, tr') \<Rightarrow>
          if i < intervals - 1 then
            (case py_sleep tr' delay of
               (Inl e, tr'') \<Rightarrow> (Inl e, tr'')
             | (Inr u, tr'') \<Rightarrow>
                 twap_loop self symbol side slice_qty delay intervals rest (results @ [res]) tr'')
          else twap_loop self symbol side slice_qty delay intervals rest (results @ [res]) tr')"

text \<open>
  \<^verbatim>\<open>execute_twap\<close>, lines 105-116. The two divisions of lines 107-108 raise
  \<^verbatim>\<open>ZeroDivisionError\<close> when \<^verbatim>\<open>intervals\<close> is 0.
\<close>

definition execute_twap ::
  "'r bot \<Rightarrow> event list \<Rightarrow> string \<Rightarrow> string \<Rightarrow> rat \<Rightarrow> int \<Rightarrow> int
   \<Rightarrow> (py_error + 'r list) \<times> event list"
where
  "execute_twap self tr symbol side total_qty duration intervals =
     (if intervals = 0 then (Inl ZeroDivisionError, tr)
      else
        let slice_qty = total_qty / of_int intervals;
            delay = of_int duration / of_int intervals
        in twap_loop self symbol side slice_qty delay intervals [0..intervals - 1] [] tr)"

text \<open>The loop of \<^verbatim>\<open>execute_grid\<close>, lines 124-126, over the prices still to place.\<close>

fun grid_loop ::
  "'r bot \<Rightarrow> string \<Rightarrow> string \<Rightarrow> rat \<Rightarrow> rat list \<Rightarrow> 'r list \<Rightarrow> event list
   \<Rightarrow> (py_error + 'r list) \<times> event list"
where
  "grid_loop self symbol side qty_per_order [] results tr = (Inr results, tr)"
| "grid_loop self symbol side qty_per_order (price # rest) results tr =
     (case place_order self tr symbol side ''LIMIT'' qty_per_order (Some price) None of
        (Inl e, tr') \<Rightarrow> (Inl e, tr')
      | (Inr res, tr') \<Rightarrow> grid_loop self symbol side qty_per_order rest (results @ [res]) tr')"

text \<open>
  \<^verbatim>\<open>execute_grid\<close>, lines 118-127: the prices first (line 120), then the division of
  line 121, which raises \<^verbatim>\<open>ZeroDivisionError\<close> when \<^verbatim>\<open>grids\<close> is 0, then the loop.
\<close>

definition execute_grid ::
  "'r bot \<Rightarrow> event list \<Rightarrow> string \<Rightarrow> string \<Rightarrow> rat \<Rightarrow> rat \<Rightarrow> rat \<Rightarrow> int
   \<Rightarrow> (py_error + 'r list) \<times> event list"
where
  "execute_grid self tr symbol side total_qty lower_price upper_price grids =
     (case linspace lower_price upper_price grids of
        Inl e \<Rightarrow> (Inl e, tr)
      | Inr prices \<Rightarrow>
          if grids = 0 then (Inl ZeroDivisionError, tr)
          else
            let qty_per_order = total_qty / of_int grids
            in grid_loop self symbol side qty_per_order prices [] tr)"

subsection \<open>Observations on a run\<close>

text \<open>
  What a caller holds after a call: the returned list when the call returned, nothing
  when an exception came out of it.
\<close>

definition returned_results :: "py_error + 'r list \<Rightarrow> 'r list option" where
  "returned_results out = (case out of Inl e \<Rightarrow> None | Inr rs \<Rightarrow> Some rs)"

text \<open>
  The first submission among the events \<open>evs\<close>, run after the trace \<open>tr\<close>, that the
  exchange answers with an error: that error and the events after it.
\<close>

fun first_failure :: "'r bot \<Rightarrow> event list \<Rightarrow> event list \<Rightarrow> (py_error \<times> event list) option" where
  "first_failure self tr [] = None"
| "first_failure self tr (Sleep d # evs) = first_failure self (tr @ [Sleep d]) evs"
| "first_failure self tr (Submit req # evs) =
     (case client self tr req of
        Inl e \<Rightarrow> Some (e, evs)
      | Inr r \<Rightarrow> first_failure self (tr @ [Submit req]) evs)"

text \<open>The requests submitted in a trace, in order.\<close>

fun submissions :: "event list \<Rightarrow> order_params list" where
  "submissions [] = []"
| "submissions (Submit req # evs) = req # submissions evs"
| "submissions (Sleep d # evs) = submissions evs"



subsection \<open>Requests and example bots\<close>

text \<open>The three shapes of \<^verbatim>\<open>params\<close> that lines 53-58, 65-72 and 80-88 build.\<close>

abbreviation market_params :: "string \<Rightarrow> string \<Rightarrow> rat \<Rightarrow> order_params" where
  "market_params s sd q \<equiv>
     \<lparr>param_symbol = s, param_side = sd, param_type = ''MARKET'', param_quantity = q,
      param_price = None, param_stopPrice = None, param_timeInForce = None\<rparr>"

abbreviation limit_params :: "string \<Rightarrow> string \<Rightarrow> rat \<Rightarrow> rat \<Rightarrow> order_params" where
  "limit_params s sd q p \<equiv>
     \<lparr>param_symbol = s, param_side = sd, param_type = ''LIMIT'', param_quantity = q,
      param_price = Some p, param_stopPrice = None, param_timeInForce = Some ''GTC''\<rparr>"



text \<open>
  Bots to run the model on. Their table for \<^verbatim>\<open>str.upper\<close> leaves text outside ASCII as it
  is; the strings of the examples are ASCII. The exchange of \<open>bot_plain\<close> accepts every
  request and answers with the number of requests it had seen before; it knows no symbol.
  The exchange of \<open>bot_third_fails\<close> rejects the third request it sees. \<open>bot_rules\<close> has a
  symbol with a price tick of 0.5 and a quantity step of 1.5, \<open>bot_tenths\<close> one with a price
  tick of 0.001 and a quantity step of 0.1, \<open>bot_zero_step\<close> one with a quantity step of 0.
\<close>

definition plain_table :: unicode_upper where
  "plain_table = Abs_unicode_upper (\<lambda>r. r)"

definition bot_plain :: "nat bot" where
  "bot_plain =
     \<lparr>client = (\<lambda>tr req. Inr (length (submissions tr))), filters = Map.empty,
      str_upper = plain_table\<rparr>"

definition bot_third_fails :: "nat bot" where
  "bot_third_fails =
     \<lparr>client = (\<lambda>tr req. if length (submissions tr) = 2
                          then Inl (BinanceAPIException 400 ''Order rejected'')
                          else Inr (length (submissions tr))),
      filters = Map.empty, str_upper = plain_table\<rparr>"

definition bot_rules :: "nat bot" where
  "bot_rules =
     \<lparr>client = (\<lambda>tr req. Inr (length (submissions tr))),
      filters = [''XYZUSDT'' \<mapsto>
        [\<lparr>filterType = ''PRICE_FILTER'', stepSize = None, tickSize = Some (1 / 2)\<rparr>,
         \<lparr>filterType = ''LOT_SIZE'', stepSize = Some (3 / 2), tickSize = None\<rparr>]],
      str_upper = plain_table\<rparr>"


definition bot_zero_step :: "nat bot" where
  "bot_zero_step =
     \<lparr>client = (\<lambda>tr req. Inr (length (submissions tr))),
      filters = [''XYZUSDT'' \<mapsto>
        [\<lparr>filterType = ''LOT_SIZE'', stepSize = Some 0, tickSize = None\<rparr>]],
      str_upper = plain_table\<rparr>"

section \<open>Properties\<close>

subsection \<open>Strings\<close>



lemma upper_runs_ascii:
  "list_all ascii s \<Longrightarrow> upper_runs U [] s = map upper_char s"
  by (induction s) simp_all

lemma upper_ascii: "list_all ascii s \<Longrightarrow> upper self s = map upper_char s"
  by (simp add: upper_def upper_runs_ascii)

text \<open>Upper-casing twice is upper-casing once: the fact the table carries.\<close>

lemma upper_idem: "upper self (upper self s) = upper self s"
  using Rep_unicode_upper [of "str_upper self"] by (simp add: upper_def)





lemma upper_examples:
  "upper self ''BTCUSDT'' = ''BTCUSDT''" "upper self ''BUY'' = ''BUY''"
  "upper self ''XYZUSDT'' = ''XYZUSDT''" "upper self ''SELL'' = ''SELL''"
  "upper self ''btcusdt'' = ''BTCUSDT''" "upper self ''Buy'' = ''BUY''"
  "upper self ''limit'' = ''LIMIT''" "upper self ''STOP_LIMIT'' = ''STOP_LIMIT''"
  by code_simp+

lemma upto_examples:
  "[0..(4::int)] = [0, 1, 2, 3, 4]" "[0..(1::int)] = [0, 1]" "[0..(0::int)] = [0]" "[0..(-1::int)] = []"
  by (simp_all add: upto_rec1)

subsection \<open>Normalisation\<close>

lemma adjust_loop_find_None:
  "find (\<lambda>f. filterType f = filter_type) fs = None \<Longrightarrow> adjust_loop fs val filter_type = Inr val"
  by (induction fs) (auto split: if_splits)

lemma adjust_loop_find_Some:
  "find (\<lambda>f. filterType f = filter_type) fs = Some f \<Longrightarrow> step_of filter_type f = Some step \<Longrightarrow>
   adjust_loop fs val filter_type =
     (case decimal_floordiv val step of
        Inl e \<Rightarrow> Inl e
      | Inr q \<Rightarrow> Inr (float_of_decimal (decimal_mul (of_int q) step)))"
  by (induction fs) (auto simp: step_of_def split: if_splits)

text \<open>
  Normalisation raises nothing when the step it finds is not zero and the quotient by it
  has at most 28 digits.
\<close>

lemma decimal_floordiv_defined:
  "b \<noteq> 0 \<Longrightarrow> \<lfloor>\<bar>a\<bar> / \<bar>b\<bar>\<rfloor> < 10 ^ 28 \<Longrightarrow> \<exists>q. decimal_floordiv a b = Inr q"
  by (simp add: decimal_floordiv_def Let_def)

lemma adjust_precision_no_error:
  assumes "\<And>fs f. filters self (upper self symbol) = Some fs \<Longrightarrow>
             find (\<lambda>f. filterType f = filter_type) fs = Some f \<Longrightarrow>
             \<exists>st. step_of filter_type f = Some st \<and> st \<noteq> 0 \<and> \<lfloor>\<bar>val\<bar> / \<bar>st\<bar>\<rfloor> < 10 ^ 28"
  shows "\<exists>r. adjust_precision self symbol val filter_type = Inr r"
proof (cases "filters self (upper self symbol)")
  case None
  then show ?thesis by (simp add: adjust_precision_def)
next
  case (Some fs)
  show ?thesis
  proof (cases "find (\<lambda>f. filterType f = filter_type) fs")
    case None
    with Some show ?thesis by (simp add: adjust_precision_def adjust_loop_find_None)
  next
    case (Some f)
    from assms [OF \<open>filters self (upper self symbol) = Some fs\<close> Some]
    obtain st where st: "step_of filter_type f = Some st" "st \<noteq> 0" "\<lfloor>\<bar>val\<bar> / \<bar>st\<bar>\<rfloor> < 10 ^ 28"
      by blast
    from decimal_floordiv_defined [OF st(2,3)] obtain q where "decimal_floordiv val st = Inr q" ..
    with adjust_loop_find_Some [OF Some st(1), of val] \<open>filters self (upper self symbol) = Some fs\<close>
    show ?thesis by (simp add: adjust_precision_def)
  qed
qed





lemma bot_rules_adjust:
  "adjust_precision bot_rules ''XYZUSDT'' 2 ''LOT_SIZE'' = Inr (3 / 2)"
  "adjust_precision bot_rules ''XYZUSDT'' 10 ''LOT_SIZE'' = Inr 9"
  "adjust_precision bot_rules ''XYZUSDT'' (401 / 4) ''PRICE_FILTER'' = Inr 100"
  "adjust_precision bot_rules ''XYZUSDT'' (399 / 4) ''PRICE_FILTER'' = Inr (199 / 2)"
  "adjust_precision bot_rules ''XYZUSDT'' 100 ''PRICE_FILTER'' = Inr 100"
  "adjust_precision bot_rules ''XYZUSDT'' 125 ''PRICE_FILTER'' = Inr 125"
  "adjust_precision bot_rules ''XYZUSDT'' 150 ''PRICE_FILTER'' = Inr 150"
  "adjust_precision bot_rules ''XYZUSDT'' 175 ''PRICE_FILTER'' = Inr 175"
  "adjust_precision bot_rules ''XYZUSDT'' 200 ''PRICE_FILTER'' = Inr 200"
  by code_simp+



subsection \<open>Fail-fast strategies\<close>

lemma first_failure_append:
  "first_failure self tr (xs @ ys) =
     (case first_failure self tr xs of
        Some (e, post) \<Rightarrow> Some (e, post @ ys)
      | None \<Rightarrow> first_failure self (tr @ xs) ys)"
proof (induction xs arbitrary: tr)
  case Nil
  then show ?case by simp
next
  case (Cons x xs)
  then show ?case by (cases x) (simp_all split: sum.splits option.splits)
qed

lemma place_order_shape:
  assumes "place_order self tr symbol side order_type quantity price stop_price = (out, tr')"
  shows "(\<exists>e. out = Inl e \<and> tr' = tr) \<or> (\<exists>req. out = client self tr req \<and> tr' = tr @ [Submit req])"
  using assms by (auto simp: place_order_def split: sum.splits)

lemma twap_loop_fail_fast:
  "\<exists>evs. snd (twap_loop self symbol side slice_qty delay intervals idx results tr) = tr @ evs \<and>
     (\<forall>e post. first_failure self tr evs = Some (e, post) \<longrightarrow>
        post = [] \<and> fst (twap_loop self symbol side slice_qty delay intervals idx results tr) = Inl e)"
proof (induction idx arbitrary: results tr)
  case Nil
  then show ?case by simp
next
  case (Cons i rest)
  obtain out tr1 where po: "place_order self tr symbol side ''MARKET'' slice_qty None None = (out, tr1)"
    by (cases "place_order self tr symbol side ''MARKET'' slice_qty None None") 
  from place_order_shape [OF po] show ?case
  proof (elim disjE exE conjE)
    fix e assume "out = Inl e" "tr1 = tr"
    with po show ?thesis by simp
  next
    fix req assume req: "out = client self tr req" "tr1 = tr @ [Submit req]"
    show ?thesis
    proof (cases "client self tr req")
      case (Inl e)
      with po req show ?thesis by simp
    next
      case (Inr res)
      show ?thesis
      proof (cases "i < intervals - 1 \<and> delay < 0")
        case True
        with po req Inr show ?thesis by (simp add: py_sleep_def)
      next
        case False
        define tr2 where "tr2 = (if i < intervals - 1 then tr1 @ [Sleep delay] else tr1)"
        have step: "twap_loop self symbol side slice_qty delay intervals (i # rest) results tr
            = twap_loop self symbol side slice_qty delay intervals rest (results @ [res]) tr2"
          using po req Inr False by (simp add: py_sleep_def tr2_def)
        from Cons.IH [of "results @ [res]" tr2] obtain evs where
          evs: "snd (twap_loop self symbol side slice_qty delay intervals rest (results @ [res]) tr2) = tr2 @ evs"
            "\<forall>e post. first_failure self tr2 evs = Some (e, post) \<longrightarrow>
               post = [] \<and> fst (twap_loop self symbol side slice_qty delay intervals rest (results @ [res]) tr2) = Inl e"
          by blast
        define pre where "pre = (if i < intervals - 1 then [Submit req, Sleep delay] else [Submit req])"
        have tr2: "tr2 = tr @ pre" by (simp add: tr2_def pre_def req)
        have "first_failure self tr pre = None"
          using Inr by (simp add: pre_def)
        then have ff: "first_failure self tr (pre @ evs) = first_failure self tr2 evs"
          by (simp add: first_failure_append tr2)
        show ?thesis
          unfolding step
          by (rule exI [of _ "pre @ evs"]) (use evs ff tr2 in simp)
      qed
    qed
  qed
qed

lemma grid_loop_fail_fast:
  "\<exists>evs. snd (grid_loop self symbol side qty prices results tr) = tr @ evs \<and>
     (\<forall>e post. first_failure self tr evs = Some (e, post) \<longrightarrow>
        post = [] \<and> fst (grid_loop self symbol side qty prices results tr) = Inl e)"
proof (induction prices arbitrary: results tr)
  case Nil
  then show ?case by simp
next
  case (Cons p rest)
  obtain out tr1 where po: "place_order self tr symbol side ''LIMIT'' qty (Some p) None = (out, tr1)"
    by (cases "place_order self tr symbol side ''LIMIT'' qty (Some p) None")
  from place_order_shape [OF po] show ?case
  proof (elim disjE exE conjE)
    fix e assume "out = Inl e" "tr1 = tr"
    with po show ?thesis by simp
  next
    fix req assume req: "out = client self tr req" "tr1 = tr @ [Submit req]"
    show ?thesis
    proof (cases "client self tr req")
      case (Inl e)
      with po req show ?thesis by simp
    next
      case (Inr res)
      have step: "grid_loop self symbol side qty (p # rest) results tr
          = grid_loop self symbol side qty rest (results @ [res]) tr1"
        using po req Inr by simp
      from Cons.IH [of "results @ [res]" tr1] obtain evs where
        evs: "snd (grid_loop self symbol side qty rest (results @ [res]) tr1) = tr1 @ evs"
          "\<forall>e post. first_failure self tr1 evs = Some (e, post) \<longrightarrow>
             post = [] \<and> fst (grid_loop self symbol side qty rest (results @ [res]) tr1) = Inl e"
        by blast
      have ff: "first_failure self tr (Submit req # evs) = first_failure self tr1 evs"
        using Inr by (simp add: req)
      show ?thesis
        unfolding step
        by (rule exI [of _ "Submit req # evs"]) (use evs ff req in simp)
    qed
  qed
qed

lemma twap_third_fails_run:
  "execute_twap bot_third_fails [] ''BTCUSDT'' ''BUY'' 10 30 5 =
     (Inl (BinanceAPIException 400 ''Order rejected''),
      [Submit (market_params ''BTCUSDT'' ''BUY'' 2), Sleep 6,
       Submit (market_params ''BTCUSDT'' ''BUY'' 2), Sleep 6,
       Submit (market_params ''BTCUSDT'' ''BUY'' 2)])"
  by (simp add: execute_twap_def bot_third_fails_def place_order_def build_params_def
      adjust_precision_def upper_examples py_sleep_def upto_examples)

text \<open>
  C1 (amended). In every run of \<^verbatim>\<open>execute_twap\<close> or \<^verbatim>\<open>execute_grid\<close>, the first submission
  that the exchange answers with an error is the last event of the run: no submission and
  no delay follows it, and that error is what the call raises. The call then returns
  nothing: the responses collected before the failure are not handed to the caller.
\<close>

theorem strategy_aborts_at_first_exchange_error:
  assumes "run = execute_twap self tr symbol side total_qty duration intervals
         \<or> run = execute_grid self tr symbol side total_qty lower_price upper_price grids"
  shows "\<exists>evs. snd run = tr @ evs \<and>
           (\<forall>e post. first_failure self tr evs = Some (e, post) \<longrightarrow>
              post = [] \<and> fst run = Inl e \<and> returned_results (fst run) = None)"
proof -
  have "\<exists>evs. snd run = tr @ evs \<and>
           (\<forall>e post. first_failure self tr evs = Some (e, post) \<longrightarrow> post = [] \<and> fst run = Inl e)"
    using assms
  proof
    assume r: "run = execute_twap self tr symbol side total_qty duration intervals"
    show ?thesis
    proof (cases "intervals = 0")
      case True
      with r show ?thesis by (simp add: execute_twap_def)
    next
      case False
      with r show ?thesis
        using twap_loop_fail_fast [of self symbol side "total_qty / of_int intervals"
            "of_int duration / of_int intervals" intervals "[0..intervals - 1]" "[]" tr]
        by (simp add: execute_twap_def Let_def)
    qed
  next
    assume r: "run = execute_grid self tr symbol side total_qty lower_price upper_price grids"
    show ?thesis
    proof (cases "linspace lower_price upper_price grids")
      case (Inl e)
      with r show ?thesis by (simp add: execute_grid_def)
    next
      case (Inr prices)
      show ?thesis
      proof (cases "grids = 0")
        case True
        with r Inr show ?thesis by (simp add: execute_grid_def)
      next
        case False
        with r Inr show ?thesis
          using grid_loop_fail_fast [of self symbol side "total_qty / of_int grids" prices "[]" tr]
          by (simp add: execute_grid_def Let_def)
      qed
    qed
  qed
  then show ?thesis by (auto simp: returned_results_def)
qed

text \<open>
  The third of five TWAP slices fails: three submissions, two delays, the error raised.
\<close>

theorem strategy_aborts_witness:
  "snd (execute_twap bot_third_fails [] ''BTCUSDT'' ''BUY'' 10 30 5) =
      [Submit (market_params ''BTCUSDT'' ''BUY'' 2), Sleep 6,
       Submit (market_params ''BTCUSDT'' ''BUY'' 2), Sleep 6,
       Submit (market_params ''BTCUSDT'' ''BUY'' 2)]
   \<and> first_failure bot_third_fails []
        [Submit (market_params ''BTCUSDT'' ''BUY'' 2), Sleep 6,
         Submit (market_params ''BTCUSDT'' ''BUY'' 2), Sleep 6,
         Submit (market_params ''BTCUSDT'' ''BUY'' 2)]
      = Some (BinanceAPIException 400 ''Order rejected'', [])
   \<and> fst (execute_twap bot_third_fails [] ''BTCUSDT'' ''BUY'' 10 30 5)
      = Inl (BinanceAPIException 400 ''Order rejected'')
   \<and> length (submissions (snd (execute_twap bot_third_fails [] ''BTCUSDT'' ''BUY'' 10 30 5))) = 3"
proof -
  let ?run = "execute_twap bot_third_fails [] ''BTCUSDT'' ''BUY'' 10 30 5"
  let ?evs = "[Submit (market_params ''BTCUSDT'' ''BUY'' 2), Sleep 6,
       Submit (market_params ''BTCUSDT'' ''BUY'' 2), Sleep 6,
       Submit (market_params ''BTCUSDT'' ''BUY'' 2)]"
  have tr: "snd ?run = ?evs" by (simp add: twap_third_fails_run)
  have ff: "first_failure bot_third_fails [] ?evs = Some (BinanceAPIException 400 ''Order rejected'', [])"
    by (simp add: bot_third_fails_def)
  from strategy_aborts_at_first_exchange_error [of ?run bot_third_fails "[]" "''BTCUSDT''" "''BUY''" 10 30 5]
  obtain evs where evs: "snd ?run = [] @ evs"
    "\<forall>e post. first_failure bot_third_fails [] evs = Some (e, post) \<longrightarrow>
              post = [] \<and> fst ?run = Inl e \<and> returned_results (fst ?run) = None"
    by blast
  from evs(1) tr have "evs = ?evs" by simp
  with evs(2) ff have "fst ?run = Inl (BinanceAPIException 400 ''Order rejected'')" by blast
  with tr ff show ?thesis by simp
qed

text \<open>
  The claim as the spec has it fails where the third of five slices is rejected: the
  call raises the error of the exchange, and no list of two results comes back with it.
\<close>

theorem twap_partial_results_counterexample:
  "fst (execute_twap bot_third_fails [] ''BTCUSDT'' ''BUY'' 10 30 5)
     = Inl (BinanceAPIException 400 ''Order rejected'')
   \<and> returned_results (fst (execute_twap bot_third_fails [] ''BTCUSDT'' ''BUY'' 10 30 5)) = None
   \<and> returned_results (fst (execute_twap bot_third_fails [] ''BTCUSDT'' ''BUY'' 10 30 5)) \<noteq> Some [0, 1]"
  by (simp add: twap_third_fails_run returned_results_def)

subsection \<open>Pass-through\<close>

text \<open>
  C4 (amended). The value comes back unchanged, and nothing is raised, whenever the
  symbol is unknown to the loaded rules or its filter list has no filter of the requested
  type.
\<close>

theorem adjust_precision_pass_through:
  assumes "filters self (upper self symbol) = None
         \<or> (\<exists>fs. filters self (upper self symbol) = Some fs \<and> find (\<lambda>f. filterType f = filter_type) fs = None)"
  shows "adjust_precision self symbol val filter_type = Inr val"
  using assms by (auto simp: adjust_precision_def adjust_loop_find_None)

theorem adjust_precision_pass_through_witness:
  "filters bot_plain (upper bot_plain ''BTCUSDT'') = None
   \<and> adjust_precision bot_plain ''BTCUSDT'' (7 / 4) ''LOT_SIZE'' = Inr (7 / 4)"
proof -
  have h: "filters bot_plain (upper bot_plain ''BTCUSDT'') = None" by (simp add: bot_plain_def)
  then have "adjust_precision bot_plain ''BTCUSDT'' (7 / 4) ''LOT_SIZE'' = Inr (7 / 4)"
    by (intro adjust_precision_pass_through disjI1)
  with h show ?thesis by simp
qed

theorem adjust_precision_zero_step_counterexample:
  "step_of ''LOT_SIZE'' \<lparr>filterType = ''LOT_SIZE'', stepSize = Some 0, tickSize = None\<rparr> = Some 0
   \<and> adjust_precision bot_zero_step ''XYZUSDT'' 1 ''LOT_SIZE'' = Inl DecimalDivisionByZero
   \<and> adjust_precision bot_zero_step ''XYZUSDT'' 1 ''LOT_SIZE'' \<noteq> Inr 1"
  by (simp add: step_of_def adjust_precision_def bot_zero_step_def upper_examples decimal_floordiv_def Let_def)

subsection \<open>Strategy preconditions\<close>

text \<open>
  C3 (amended). \<^verbatim>\<open>execute_twap\<close> with 0 intervals and \<^verbatim>\<open>execute_grid\<close> with 0 levels raise
  \<^verbatim>\<open>ZeroDivisionError\<close> before any submission: the trace is unchanged.
\<close>

theorem zero_count_rejected_before_submission:
  "execute_twap self tr symbol side total_qty duration 0 = (Inl ZeroDivisionError, tr)
   \<and> execute_grid self tr symbol side total_qty lower_price upper_price 0 = (Inl ZeroDivisionError, tr)"
  by (simp add: execute_twap_def execute_grid_def linspace_def)

theorem zero_count_rejected_witness:
  "execute_twap bot_plain [] ''BTCUSDT'' ''BUY'' 10 30 0 = (Inl ZeroDivisionError, [])
   \<and> execute_grid bot_plain [] ''BTCUSDT'' ''BUY'' 10 100 200 0 = (Inl ZeroDivisionError, [])"
  using zero_count_rejected_before_submission [of bot_plain "[]" "''BTCUSDT''" "''BUY''" 10 30 100 200]
  by simp

theorem grid_inverted_bounds_counterexample:
  "execute_grid bot_plain [] ''BTCUSDT'' ''BUY'' 10 200 100 2 =
     (Inr [0, 1],
      [Submit (limit_params ''BTCUSDT'' ''BUY'' 5 200), Submit (limit_params ''BTCUSDT'' ''BUY'' 5 100)])"
  by (simp add: execute_grid_def linspace_def bot_plain_def place_order_def build_params_def
      adjust_precision_def upper_examples upto_examples)


lemma build_params_market:
  assumes "adjust_precision self (upper self symbol) quantity ''LOT_SIZE'' = Inr qty"
  shows "build_params self symbol side ''MARKET'' quantity price stop_price
           = Inr (market_params (upper self symbol) (upper self side) qty)"
  using assms by (simp add: build_params_def)

lemma build_params_limit:
  assumes "adjust_precision self (upper self symbol) quantity ''LOT_SIZE'' = Inr qty"
    and "adjust_precision self (upper self symbol) price ''PRICE_FILTER'' = Inr pr"
  shows "build_params self symbol side ''LIMIT'' quantity (Some price) stop_price
           = Inr (limit_params (upper self symbol) (upper self side) qty pr)"
  using assms by (simp add: build_params_def)


lemma place_order_submits:
  assumes "build_params self symbol side order_type quantity price stop_price = Inr req"
    and "client self tr req = Inr r"
  shows "place_order self tr symbol side order_type quantity price stop_price
           = (Inr r, tr @ [Submit req])"
  using assms by (simp add: place_order_def)

lemma adjust_precision_unknown:
  assumes "filters self (upper self symbol) = None"
    and "adjust_precision self (upper self symbol) val filter_type = Inr r"
  shows "r = val"
  using assms by (simp add: adjust_precision_def upper_idem)

lemma linspace_examples:
  "linspace 100 200 5 = Inr [100, 125, 150, 175, 200]"
  "linspace 200 100 2 = Inr [200, 100]"
  by code_simp+

lemma linspace_one: "linspace lower_price upper_price 1 = Inr [lower_price]"
  by (simp add: linspace_def upto_examples)

subsection \<open>The TWAP example\<close>

lemma bot_plain_adjust:
  "adjust_precision bot_plain s v ft = Inr v"
  by (simp add: adjust_precision_def bot_plain_def)

lemma bot_rules_client: "client bot_rules h req = Inr (length (submissions h))"
  by (simp add: bot_rules_def)

lemma bot_plain_client: "client bot_plain h req = Inr (length (submissions h))"
  by (simp add: bot_plain_def)

text \<open>
  C5 (amended). \<^verbatim>\<open>execute_twap(symbol, side, 10, 30, 5)\<close>, when normalising the slice quantity
  2 against the symbol's quantity step gives \<open>q\<close> and the exchange accepts each of the five
  submissions as it comes (with the answers \<open>r0 .. r4\<close>): five MARKET submissions of
  quantity \<open>q\<close> each, a delay of 6 seconds between consecutive submissions and none after
  the last, and the five answers returned. For a symbol without rules \<open>q\<close> is 2.
\<close>

theorem twap_10_30_5_run:
  assumes "adjust_precision self (upper self symbol) 2 ''LOT_SIZE'' = Inr q"
    and "m = market_params (upper self symbol) (upper self side) q"
    and "client self tr m = Inr r0"
    and "client self (tr @ [Submit m, Sleep 6]) m = Inr r1"
    and "client self (tr @ [Submit m, Sleep 6, Submit m, Sleep 6]) m = Inr r2"
    and "client self (tr @ [Submit m, Sleep 6, Submit m, Sleep 6, Submit m, Sleep 6]) m = Inr r3"
    and "client self (tr @ [Submit m, Sleep 6, Submit m, Sleep 6, Submit m, Sleep 6,
                            Submit m, Sleep 6]) m = Inr r4"
  shows "execute_twap self tr symbol side 10 30 5 =
           (Inr [r0, r1, r2, r3, r4],
            tr @ [Submit m, Sleep 6, Submit m, Sleep 6, Submit m, Sleep 6, Submit m, Sleep 6,
                  Submit m])
         \<and> (filters self (upper self symbol) = None \<longrightarrow> q = 2)"
proof -
  have bp: "build_params self symbol side ''MARKET'' 2 None None = Inr m"
    using build_params_market [OF assms(1)] assms(2) by simp
  let ?h1 = "tr @ [Submit m, Sleep 6]"
  let ?h2 = "tr @ [Submit m, Sleep 6, Submit m, Sleep 6]"
  let ?h3 = "tr @ [Submit m, Sleep 6, Submit m, Sleep 6, Submit m, Sleep 6]"
  let ?h4 = "tr @ [Submit m, Sleep 6, Submit m, Sleep 6, Submit m, Sleep 6, Submit m, Sleep 6]"
  let ?h5 = "tr @ [Submit m, Sleep 6, Submit m, Sleep 6, Submit m, Sleep 6, Submit m, Sleep 6,
                   Submit m]"
  have s0: "place_order self tr symbol side ''MARKET'' 2 None None = (Inr r0, tr @ [Submit m])"
    and s1: "place_order self ?h1 symbol side ''MARKET'' 2 None None = (Inr r1, ?h1 @ [Submit m])"
    and s2: "place_order self ?h2 symbol side ''MARKET'' 2 None None = (Inr r2, ?h2 @ [Submit m])"
    and s3: "place_order self ?h3 symbol side ''MARKET'' 2 None None = (Inr r3, ?h3 @ [Submit m])"
    and s4: "place_order self ?h4 symbol side ''MARKET'' 2 None None = (Inr r4, ?h4 @ [Submit m])"
    using assms(3-7) by (simp_all only: place_order_submits [OF bp])
  have l4: "twap_loop self symbol side 2 6 5 [4] [r0, r1, r2, r3] ?h4 = (Inr [r0, r1, r2, r3, r4], ?h5)"
    by (subst twap_loop.simps) (simp add: s4)
  have l3: "twap_loop self symbol side 2 6 5 [3, 4] [r0, r1, r2] ?h3 = (Inr [r0, r1, r2, r3, r4], ?h5)"
    by (subst twap_loop.simps) (simp add: s3 l4 py_sleep_def del: twap_loop.simps)
  have l2: "twap_loop self symbol side 2 6 5 [2, 3, 4] [r0, r1] ?h2 = (Inr [r0, r1, r2, r3, r4], ?h5)"
    by (subst twap_loop.simps) (simp add: s2 l3 py_sleep_def del: twap_loop.simps)
  have l1: "twap_loop self symbol side 2 6 5 [1, 2, 3, 4] [r0] ?h1 = (Inr [r0, r1, r2, r3, r4], ?h5)"
    by (subst twap_loop.simps) (simp add: s1 l2 py_sleep_def del: twap_loop.simps)
  have l0: "twap_loop self symbol side 2 6 5 [0, 1, 2, 3, 4] [] tr = (Inr [r0, r1, r2, r3, r4], ?h5)"
    by (subst twap_loop.simps) (simp add: s0 l1 py_sleep_def del: twap_loop.simps)
  have "execute_twap self tr symbol side 10 30 5 = (Inr [r0, r1, r2, r3, r4], ?h5)"
    by (simp add: execute_twap_def upto_examples l0 del: twap_loop.simps)
  moreover have "filters self (upper self symbol) = None \<longrightarrow> q = 2"
    using adjust_precision_unknown [OF _ assms(1)] by blast
  ultimately show ?thesis by simp
qed

text \<open>
  A symbol with a quantity step of 1.5 on an exchange that answers with the number of
  requests it had seen before.
\<close>

theorem twap_10_30_5_run_witness:
  "adjust_precision bot_rules (upper bot_rules ''XYZUSDT'') 2 ''LOT_SIZE'' = Inr (3 / 2)
   \<and> client bot_rules [] (market_params ''XYZUSDT'' ''BUY'' (3 / 2)) = Inr 0
   \<and> client bot_rules
        [Submit (market_params ''XYZUSDT'' ''BUY'' (3 / 2)), Sleep 6,
         Submit (market_params ''XYZUSDT'' ''BUY'' (3 / 2)), Sleep 6,
         Submit (market_params ''XYZUSDT'' ''BUY'' (3 / 2)), Sleep 6,
         Submit (market_params ''XYZUSDT'' ''BUY'' (3 / 2)), Sleep 6]
        (market_params ''XYZUSDT'' ''BUY'' (3 / 2)) = Inr 4
   \<and> execute_twap bot_rules [] ''XYZUSDT'' ''BUY'' 10 30 5 =
       (Inr [0, 1, 2, 3, 4],
        [Submit (market_params ''XYZUSDT'' ''BUY'' (3 / 2)), Sleep 6,
         Submit (market_params ''XYZUSDT'' ''BUY'' (3 / 2)), Sleep 6,
         Submit (market_params ''XYZUSDT'' ''BUY'' (3 / 2)), Sleep 6,
         Submit (market_params ''XYZUSDT'' ''BUY'' (3 / 2)), Sleep 6,
         Submit (market_params ''XYZUSDT'' ''BUY'' (3 / 2))])"
proof -
  let ?m = "market_params ''XYZUSDT'' ''BUY'' (3 / 2)"
  have a: "adjust_precision bot_rules (upper bot_rules ''XYZUSDT'') 2 ''LOT_SIZE'' = Inr (3 / 2)"
    by (simp add: upper_examples bot_rules_adjust)
  have m: "?m = market_params (upper bot_rules ''XYZUSDT'') (upper bot_rules ''BUY'') (3 / 2)"
    by (simp add: upper_examples)
  have c0: "client bot_rules [] ?m = Inr 0"
    and c1: "client bot_rules ([] @ [Submit ?m, Sleep 6]) ?m = Inr 1"
    and c2: "client bot_rules ([] @ [Submit ?m, Sleep 6, Submit ?m, Sleep 6]) ?m = Inr 2"
    and c3: "client bot_rules ([] @ [Submit ?m, Sleep 6, Submit ?m, Sleep 6, Submit ?m, Sleep 6]) ?m
               = Inr 3"
    and c4: "client bot_rules ([] @ [Submit ?m, Sleep 6, Submit ?m, Sleep 6, Submit ?m, Sleep 6,
                                     Submit ?m, Sleep 6]) ?m = Inr 4"
    by (simp_all add: bot_rules_client)
  from twap_10_30_5_run [OF a m c0 c1 c2 c3 c4] a c0 c4
  show ?thesis by simp
qed

text \<open>
  The claim as the spec has it fails for this symbol: the five requests carry the
  quantity 1.5, not 2.
\<close>

theorem twap_quantity_two_counterexample:
  "execute_twap bot_rules [] ''XYZUSDT'' ''BUY'' 10 30 5 =
     (Inr [0, 1, 2, 3, 4],
      [Submit (market_params ''XYZUSDT'' ''BUY'' (3 / 2)), Sleep 6,
       Submit (market_params ''XYZUSDT'' ''BUY'' (3 / 2)), Sleep 6,
       Submit (market_params ''XYZUSDT'' ''BUY'' (3 / 2)), Sleep 6,
       Submit (market_params ''XYZUSDT'' ''BUY'' (3 / 2)), Sleep 6,
       Submit (market_params ''XYZUSDT'' ''BUY'' (3 / 2))])
   \<and> map param_quantity (submissions (snd (execute_twap bot_rules [] ''XYZUSDT'' ''BUY'' 10 30 5)))
       \<noteq> [2, 2, 2, 2, 2]"
proof -
  have bp: "build_params bot_rules ''XYZUSDT'' ''BUY'' ''MARKET'' 2 None None
      = Inr (market_params ''XYZUSDT'' ''BUY'' (3 / 2))"
    by (simp add: build_params_def bot_rules_adjust upper_examples)
  have "execute_twap bot_rules [] ''XYZUSDT'' ''BUY'' 10 30 5 =
     (Inr [0, 1, 2, 3, 4],
      [Submit (market_params ''XYZUSDT'' ''BUY'' (3 / 2)), Sleep 6,
       Submit (market_params ''XYZUSDT'' ''BUY'' (3 / 2)), Sleep 6,
       Submit (market_params ''XYZUSDT'' ''BUY'' (3 / 2)), Sleep 6,
       Submit (market_params ''XYZUSDT'' ''BUY'' (3 / 2)), Sleep 6,
       Submit (market_params ''XYZUSDT'' ''BUY'' (3 / 2))])"
    by (simp add: execute_twap_def upto_examples place_order_def bp py_sleep_def bot_rules_client)
  then show ?thesis by simp
qed

subsection \<open>The grid example\<close>

text \<open>
  C6 (amended). \<^verbatim>\<open>execute_grid(symbol, side, 10, 100, 200, 5)\<close>, when normalisation gives
  the quantity \<open>q\<close> for 2 and the prices \<open>p0 .. p4\<close> for 100, 125, 150, 175, 200 and the
  exchange accepts each of the five submissions as it comes (with the answers
  \<open>r0 .. r4\<close>): five LIMIT submissions of quantity \<open>q\<close> at \<open>p0 .. p4\<close>, in this order and with
  no delay, and the five answers returned. For a symbol without rules the quantity is 2
  and the prices are the five prices themselves.
\<close>

theorem grid_10_100_200_5_run:
  assumes "adjust_precision self (upper self symbol) 2 ''LOT_SIZE'' = Inr q"
    and "adjust_precision self (upper self symbol) 100 ''PRICE_FILTER'' = Inr p0"
    and "adjust_precision self (upper self symbol) 125 ''PRICE_FILTER'' = Inr p1"
    and "adjust_precision self (upper self symbol) 150 ''PRICE_FILTER'' = Inr p2"
    and "adjust_precision self (upper self symbol) 175 ''PRICE_FILTER'' = Inr p3"
    and "adjust_precision self (upper self symbol) 200 ''PRICE_FILTER'' = Inr p4"
    and "l0 = limit_params (upper self symbol) (upper self side) q p0"
    and "l1 = limit_params (upper self symbol) (upper self side) q p1"
    and "l2 = limit_params (upper self symbol) (upper self side) q p2"
    and "l3 = limit_params (upper self symbol) (upper self side) q p3"
    and "l4 = limit_params (upper self symbol) (upper self side) q p4"
    and "client self tr l0 = Inr r0"
    and "client self (tr @ [Submit l0]) l1 = Inr r1"
    and "client self (tr @ [Submit l0, Submit l1]) l2 = Inr r2"
    and "client self (tr @ [Submit l0, Submit l1, Submit l2]) l3 = Inr r3"
    and "client self (tr @ [Submit l0, Submit l1, Submit l2, Submit l3]) l4 = Inr r4"
  shows "execute_grid self tr symbol side 10 100 200 5 =
           (Inr [r0, r1, r2, r3, r4],
            tr @ [Submit l0, Submit l1, Submit l2, Submit l3, Submit l4])
         \<and> (filters self (upper self symbol) = None \<longrightarrow>
              q = 2 \<and> [p0, p1, p2, p3, p4] = [100, 125, 150, 175, 200])"
proof -
  have bp: "build_params self symbol side ''LIMIT'' 2 (Some 100) None = Inr l0"
    "build_params self symbol side ''LIMIT'' 2 (Some 125) None = Inr l1"
    "build_params self symbol side ''LIMIT'' 2 (Some 150) None = Inr l2"
    "build_params self symbol side ''LIMIT'' 2 (Some 175) None = Inr l3"
    "build_params self symbol side ''LIMIT'' 2 (Some 200) None = Inr l4"
    using assms(1-11) by (simp_all only: build_params_limit)
  let ?h1 = "tr @ [Submit l0]"
  let ?h2 = "tr @ [Submit l0, Submit l1]"
  let ?h3 = "tr @ [Submit l0, Submit l1, Submit l2]"
  let ?h4 = "tr @ [Submit l0, Submit l1, Submit l2, Submit l3]"
  let ?h5 = "tr @ [Submit l0, Submit l1, Submit l2, Submit l3, Submit l4]"
  have s0: "place_order self tr symbol side ''LIMIT'' 2 (Some 100) None = (Inr r0, tr @ [Submit l0])"
    and s1: "place_order self ?h1 symbol side ''LIMIT'' 2 (Some 125) None = (Inr r1, ?h1 @ [Submit l1])"
    and s2: "place_order self ?h2 symbol side ''LIMIT'' 2 (Some 150) None = (Inr r2, ?h2 @ [Submit l2])"
    and s3: "place_order self ?h3 symbol side ''LIMIT'' 2 (Some 175) None = (Inr r3, ?h3 @ [Submit l3])"
    and s4: "place_order self ?h4 symbol side ''LIMIT'' 2 (Some 200) None = (Inr r4, ?h4 @ [Submit l4])"
    using assms(12-16) bp by (simp_all only: place_order_submits)
  have "grid_loop self symbol side 2 [100, 125, 150, 175, 200] [] tr = (Inr [r0, r1, r2, r3, r4], ?h5)"
    by (simp add: s0 s1 s2 s3 s4)
  then have "execute_grid self tr symbol side 10 100 200 5 = (Inr [r0, r1, r2, r3, r4], ?h5)"
    by (simp add: execute_grid_def linspace_examples del: grid_loop.simps)
  moreover have "filters self (upper self symbol) = None \<longrightarrow>
              q = 2 \<and> [p0, p1, p2, p3, p4] = [100, 125, 150, 175, 200]"
    using adjust_precision_unknown [OF _ assms(1)] adjust_precision_unknown [OF _ assms(2)]
      adjust_precision_unknown [OF _ assms(3)] adjust_precision_unknown [OF _ assms(4)]
      adjust_precision_unknown [OF _ assms(5)] adjust_precision_unknown [OF _ assms(6)]
    by simp
  ultimately show ?thesis by simp
qed

theorem grid_10_100_200_5_run_witness:
  "adjust_precision bot_rules (upper bot_rules ''XYZUSDT'') 2 ''LOT_SIZE'' = Inr (3 / 2)
   \<and> adjust_precision bot_rules (upper bot_rules ''XYZUSDT'') 125 ''PRICE_FILTER'' = Inr 125
   \<and> client bot_rules [] (limit_params ''XYZUSDT'' ''BUY'' (3 / 2) 100) = Inr 0
   \<and> execute_grid bot_rules [] ''XYZUSDT'' ''BUY'' 10 100 200 5 =
       (Inr [0, 1, 2, 3, 4],
        [Submit (limit_params ''XYZUSDT'' ''BUY'' (3 / 2) 100),
         Submit (limit_params ''XYZUSDT'' ''BUY'' (3 / 2) 125),
         Submit (limit_params ''XYZUSDT'' ''BUY'' (3 / 2) 150),
         Submit (limit_params ''XYZUSDT'' ''BUY'' (3 / 2) 175),
         Submit (limit_params ''XYZUSDT'' ''BUY'' (3 / 2) 200)])"
proof -
  let ?l = "limit_params ''XYZUSDT'' ''BUY'' (3 / 2)"
  have a: "adjust_precision bot_rules (upper bot_rules ''XYZUSDT'') 2 ''LOT_SIZE'' = Inr (3 / 2)"
    "adjust_precision bot_rules (upper bot_rules ''XYZUSDT'') 100 ''PRICE_FILTER'' = Inr 100"
    "adjust_precision bot_rules (upper bot_rules ''XYZUSDT'') 125 ''PRICE_FILTER'' = Inr 125"
    "adjust_precision bot_rules (upper bot_rules ''XYZUSDT'') 150 ''PRICE_FILTER'' = Inr 150"
    "adjust_precision bot_rules (upper bot_rules ''XYZUSDT'') 175 ''PRICE_FILTER'' = Inr 175"
    "adjust_precision bot_rules (upper bot_rules ''XYZUSDT'') 200 ''PRICE_FILTER'' = Inr 200"
    by (simp_all add: upper_examples bot_rules_adjust)
  have l: "?l 100 = limit_params (upper bot_rules ''XYZUSDT'') (upper bot_rules ''BUY'') (3 / 2) 100"
    "?l 125 = limit_params (upper bot_rules ''XYZUSDT'') (upper bot_rules ''BUY'') (3 / 2) 125"
    "?l 150 = limit_params (upper bot_rules ''XYZUSDT'') (upper bot_rules ''BUY'') (3 / 2) 150"
    "?l 175 = limit_params (upper bot_rules ''XYZUSDT'') (upper bot_rules ''BUY'') (3 / 2) 175"
    "?l 200 = limit_params (upper bot_rules ''XYZUSDT'') (upper bot_rules ''BUY'') (3 / 2) 200"
    by (simp_all add: upper_examples)
  have c0: "client bot_rules [] (?l 100) = Inr 0"
    and c1: "client bot_rules ([] @ [Submit (?l 100)]) (?l 125) = Inr 1"
    and c2: "client bot_rules ([] @ [Submit (?l 100), Submit (?l 125)]) (?l 150) = Inr 2"
    and c3: "client bot_rules ([] @ [Submit (?l 100), Submit (?l 125), Submit (?l 150)]) (?l 175)
               = Inr 3"
    and c4: "client bot_rules ([] @ [Submit (?l 100), Submit (?l 125), Submit (?l 150),
                                     Submit (?l 175)]) (?l 200) = Inr 4"
    by (simp_all add: bot_rules_client)
  from grid_10_100_200_5_run [OF a l c0 c1 c2 c3 c4] a(1,3) c0
  show ?thesis by simp
qed

lemma bot_rules_limit:
  "place_order bot_rules h ''XYZUSDT'' ''BUY'' ''LIMIT'' 2 (Some 100) None
     = (Inr (length (submissions h)), h @ [Submit (limit_params ''XYZUSDT'' ''BUY'' (3 / 2) 100)])"
  "place_order bot_rules h ''XYZUSDT'' ''BUY'' ''LIMIT'' 2 (Some 125) None
     = (Inr (length (submissions h)), h @ [Submit (limit_params ''XYZUSDT'' ''BUY'' (3 / 2) 125)])"
  "place_order bot_rules h ''XYZUSDT'' ''BUY'' ''LIMIT'' 2 (Some 150) None
     = (Inr (length (submissions h)), h @ [Submit (limit_params ''XYZUSDT'' ''BUY'' (3 / 2) 150)])"
  "place_order bot_rules h ''XYZUSDT'' ''BUY'' ''LIMIT'' 2 (Some 175) None
     = (Inr (length (submissions h)), h @ [Submit (limit_params ''XYZUSDT'' ''BUY'' (3 / 2) 175)])"
  "place_order bot_rules h ''XYZUSDT'' ''BUY'' ''LIMIT'' 2 (Some 200) None
     = (Inr (length (submissions h)), h @ [Submit (limit_params ''XYZUSDT'' ''BUY'' (3 / 2) 200)])"
  "place_order bot_rules h ''XYZUSDT'' ''BUY'' ''LIMIT'' 10 (Some (401 / 4)) None
     = (Inr (length (submissions h)), h @ [Submit (limit_params ''XYZUSDT'' ''BUY'' 9 100)])"
  by (simp_all add: place_order_def build_params_def upper_examples bot_rules_adjust bot_rules_client)

text \<open>
  The claim as the spec has it fails for the symbol with a quantity step of 1.5: the five
  requests carry the quantity 1.5, not 2.
\<close>

theorem grid_quantity_two_counterexample:
  "execute_grid bot_rules [] ''XYZUSDT'' ''BUY'' 10 100 200 5 =
     (Inr [0, 1, 2, 3, 4],
      [Submit (limit_params ''XYZUSDT'' ''BUY'' (3 / 2) 100),
       Submit (limit_params ''XYZUSDT'' ''BUY'' (3 / 2) 125),
       Submit (limit_params ''XYZUSDT'' ''BUY'' (3 / 2) 150),
       Submit (limit_params ''XYZUSDT'' ''BUY'' (3 / 2) 175),
       Submit (limit_params ''XYZUSDT'' ''BUY'' (3 / 2) 200)])
   \<and> map param_quantity (submissions (snd (execute_grid bot_rules [] ''XYZUSDT'' ''BUY'' 10 100 200 5)))
       \<noteq> [2, 2, 2, 2, 2]"
proof -
  have "execute_grid bot_rules [] ''XYZUSDT'' ''BUY'' 10 100 200 5 =
     (Inr [0, 1, 2, 3, 4],
      [Submit (limit_params ''XYZUSDT'' ''BUY'' (3 / 2) 100),
       Submit (limit_params ''XYZUSDT'' ''BUY'' (3 / 2) 125),
       Submit (limit_params ''XYZUSDT'' ''BUY'' (3 / 2) 150),
       Submit (limit_params ''XYZUSDT'' ''BUY'' (3 / 2) 175),
       Submit (limit_params ''XYZUSDT'' ''BUY'' (3 / 2) 200)])"
    by (simp add: execute_grid_def linspace_examples bot_rules_limit)
  then show ?thesis by simp
qed

subsection \<open>A grid of one level\<close>

text \<open>
  C7 (amended). \<^verbatim>\<open>execute_grid\<close> with one level, when normalisation gives the quantity
  \<open>q\<close> for the total quantity and the price \<open>p\<close> for the lower price and the exchange
  accepts the request: exactly one LIMIT submission, of quantity \<open>q\<close> at price \<open>p\<close>. For a
  symbol without rules they are the total quantity and the lower price themselves.
\<close>

theorem grid_single_level:
  assumes "adjust_precision self (upper self symbol) total_qty ''LOT_SIZE'' = Inr q"
    and "adjust_precision self (upper self symbol) lower_price ''PRICE_FILTER'' = Inr p"
    and "client self tr (limit_params (upper self symbol) (upper self side) q p) = Inr r"
  shows "execute_grid self tr symbol side total_qty lower_price upper_price 1 =
           (Inr [r], tr @ [Submit (limit_params (upper self symbol) (upper self side) q p)])
         \<and> (filters self (upper self symbol) = None \<longrightarrow> q = total_qty \<and> p = lower_price)"
proof -
  have bp: "build_params self symbol side ''LIMIT'' total_qty (Some lower_price) None
      = Inr (limit_params (upper self symbol) (upper self side) q p)"
    by (rule build_params_limit [OF assms(1,2)])
  have "execute_grid self tr symbol side total_qty lower_price upper_price 1 =
           (Inr [r], tr @ [Submit (limit_params (upper self symbol) (upper self side) q p)])"
    by (simp add: execute_grid_def linspace_one place_order_submits [OF bp assms(3)])
  moreover have "filters self (upper self symbol) = None \<longrightarrow> q = total_qty \<and> p = lower_price"
    using adjust_precision_unknown [OF _ assms(1)] adjust_precision_unknown [OF _ assms(2)]
    by simp
  ultimately show ?thesis by simp
qed

theorem grid_single_level_witness:
  "filters bot_plain (upper bot_plain ''BTCUSDT'') = None
   \<and> execute_grid bot_plain [] ''BTCUSDT'' ''BUY'' (7 / 2) (401 / 4) 200 1 =
       (Inr [0], [Submit (limit_params ''BTCUSDT'' ''BUY'' (7 / 2) (401 / 4))])"
proof -
  have c: "client bot_plain [] (limit_params (upper bot_plain ''BTCUSDT'') (upper bot_plain ''BUY'') (7 / 2) (401 / 4)) = Inr 0"
    by (simp add: bot_plain_def)
  have f: "filters bot_plain (upper bot_plain ''BTCUSDT'') = None" by (simp add: bot_plain_def)
  from grid_single_level [OF bot_plain_adjust bot_plain_adjust c, where upper_price = 200] f
  show ?thesis by (simp add: upper_examples)
qed

text \<open>
  The claim as the spec has it fails for the symbol with tick 0.5 and step 1.5: the lower
  price 100.25 and the total quantity 10 are submitted as 100 and 9.
\<close>

theorem grid_single_level_counterexample:
  "execute_grid bot_rules [] ''XYZUSDT'' ''BUY'' 10 (401 / 4) 200 1 =
     (Inr [0], [Submit (limit_params ''XYZUSDT'' ''BUY'' 9 100)])
   \<and> submissions (snd (execute_grid bot_rules [] ''XYZUSDT'' ''BUY'' 10 (401 / 4) 200 1))
       \<noteq> [limit_params ''XYZUSDT'' ''BUY'' 10 (401 / 4)]"
  by (simp add: execute_grid_def linspace_one bot_rules_limit)

subsection \<open>Construction errors\<close>

text \<open>
  C8 (amended). \<^verbatim>\<open>place_order\<close> of src/trading\_bot.py with LIMIT and no price, with
  STOP\_LIMIT, a price and no stop price, or with an order type other than MARKET, LIMIT
  and STOP\_LIMIT raises and calls no endpoint: the trace stays as it was. Normalising the
  quantity runs first: where it returns, what is raised is \<^verbatim>\<open>ValueError\<close> with the message
  "Price required for LIMIT orders", "Both stop_price and price required for STOP_LIMIT"
  or "Unsupported order type: ..."; where it raises, its exception is what is raised.
  \<^verbatim>\<open>place_order\<close> of src/bot.py raises its own \<^verbatim>\<open>ValueError\<close> for LIMIT (in any case of the
  letters) without a price, before its call of the endpoint, and submits every other
  order type as it is, upper-cased.
\<close>

theorem place_order_construction_errors:
  "place_order self tr symbol side ''LIMIT'' quantity None stop_price =
     ((case adjust_precision self (upper self symbol) quantity ''LOT_SIZE'' of
         Inl e \<Rightarrow> Inl e
       | Inr qty \<Rightarrow> Inl (ValueError ''Price required for LIMIT orders'')), tr)
   \<and> place_order self tr symbol side ''STOP_LIMIT'' quantity (Some price) None =
     ((case adjust_precision self (upper self symbol) quantity ''LOT_SIZE'' of
         Inl e \<Rightarrow> Inl e
       | Inr qty \<Rightarrow> Inl (ValueError ''Both stop_price and price required for STOP_LIMIT'')), tr)
   \<and> (order_type \<notin> {''MARKET'', ''LIMIT'', ''STOP_LIMIT''} \<longrightarrow>
        place_order self tr symbol side order_type quantity price' stop_price' =
          ((case adjust_precision self (upper self symbol) quantity ''LOT_SIZE'' of
              Inl e \<Rightarrow> Inl e
            | Inr qty \<Rightarrow> Inl (ValueError (''Unsupported order type: '' @ order_type))), tr))
   \<and> (upper self order_type' = ''LIMIT'' \<longrightarrow>
        place_order_basic self tr symbol side order_type' quantity None
          = (Inl (ValueError ''Price must be provided for LIMIT orders''), tr))
   \<and> (upper self order_type' \<noteq> ''LIMIT'' \<longrightarrow>
        place_order_basic self tr symbol side order_type' quantity price' =
          (client self tr
             \<lparr>param_symbol = upper self symbol, param_side = upper self side,
              param_type = upper self order_type', param_quantity = quantity,
              param_price = None, param_stopPrice = None, param_timeInForce = None\<rparr>,
           tr @ [Submit
             \<lparr>param_symbol = upper self symbol, param_side = upper self side,
              param_type = upper self order_type', param_quantity = quantity,
              param_price = None, param_stopPrice = None, param_timeInForce = None\<rparr>]))"
  by (simp add: place_order_def build_params_def place_order_basic_def Let_def split: sum.split)

text \<open>
  With a quantity step of 1.5 the quantity 2 is normalised without an exception, and the
  three errors are the three \<^verbatim>\<open>ValueError\<close>s.
\<close>

theorem place_order_construction_errors_witness:
  "adjust_precision bot_rules (upper bot_rules ''XYZUSDT'') 2 ''LOT_SIZE'' = Inr (3 / 2)
   \<and> place_order bot_rules [] ''XYZUSDT'' ''BUY'' ''LIMIT'' 2 None None
       = (Inl (ValueError ''Price required for LIMIT orders''), [])
   \<and> place_order bot_rules [] ''XYZUSDT'' ''BUY'' ''STOP_LIMIT'' 2 (Some 100) None
       = (Inl (ValueError ''Both stop_price and price required for STOP_LIMIT''), [])
   \<and> place_order bot_rules [] ''XYZUSDT'' ''BUY'' ''TWAP'' 2 (Some 100) (Some 90)
       = (Inl (ValueError ''Unsupported order type: TWAP''), [])
   \<and> place_order_basic bot_rules [] ''XYZUSDT'' ''BUY'' ''limit'' 2 None
       = (Inl (ValueError ''Price must be provided for LIMIT orders''), [])
   \<and> place_order_basic bot_rules [] ''XYZUSDT'' ''BUY'' ''STOP_LIMIT'' 2 (Some 100)
       = (Inr 0,
          [Submit \<lparr>param_symbol = ''XYZUSDT'', param_side = ''BUY'', param_type = ''STOP_LIMIT'',
                   param_quantity = 2, param_price = None, param_stopPrice = None,
                   param_timeInForce = None\<rparr>])"
proof -
  have a: "adjust_precision bot_rules (upper bot_rules ''XYZUSDT'') 2 ''LOT_SIZE'' = Inr (3 / 2)"
    by (simp add: upper_examples bot_rules_adjust)
  note t1 = place_order_construction_errors [where self = bot_rules and tr = "[]"
      and symbol = "''XYZUSDT''" and side = "''BUY''" and quantity = 2 and stop_price = None
      and price = 100 and order_type = "''TWAP''" and price' = "Some 100"
      and stop_price' = "Some 90" and order_type' = "''limit''"]
  note t2 = place_order_construction_errors [where self = bot_rules and tr = "[]"
      and symbol = "''XYZUSDT''" and side = "''BUY''" and quantity = 2 and stop_price = None
      and price = 100 and order_type = "''TWAP''" and price' = "Some 100"
      and stop_price' = "Some 90" and order_type' = "''STOP_LIMIT''"]
  from t1 a have
    "place_order bot_rules [] ''XYZUSDT'' ''BUY'' ''LIMIT'' 2 None None
       = (Inl (ValueError ''Price required for LIMIT orders''), [])
   \<and> place_order bot_rules [] ''XYZUSDT'' ''BUY'' ''STOP_LIMIT'' 2 (Some 100) None
       = (Inl (ValueError ''Both stop_price and price required for STOP_LIMIT''), [])
   \<and> place_order bot_rules [] ''XYZUSDT'' ''BUY'' ''TWAP'' 2 (Some 100) (Some 90)
       = (Inl (ValueError ''Unsupported order type: TWAP''), [])
   \<and> place_order_basic bot_rules [] ''XYZUSDT'' ''BUY'' ''limit'' 2 None
       = (Inl (ValueError ''Price must be provided for LIMIT orders''), [])"
    by (simp add: upper_examples)
  moreover from t2 have
    "place_order_basic bot_rules [] ''XYZUSDT'' ''BUY'' ''STOP_LIMIT'' 2 (Some 100)
       = (Inr 0,
          [Submit \<lparr>param_symbol = ''XYZUSDT'', param_side = ''BUY'', param_type = ''STOP_LIMIT'',
                   param_quantity = 2, param_price = None, param_stopPrice = None,
                   param_timeInForce = None\<rparr>])"
    by (simp add: upper_examples bot_rules_client)
  ultimately show ?thesis using a by simp
qed

text \<open>
  The claim as the spec has it fails twice. With a quantity step of 0, LIMIT without
  a price raises the \<^verbatim>\<open>DivisionByZero\<close> of the normalisation, not the \<^verbatim>\<open>ValueError\<close>. And
  \<^verbatim>\<open>place_order\<close> of src/bot.py submits an order of type STOP\_LIMIT, with no price and no
  stop price in the request.
\<close>

theorem place_order_construction_errors_counterexample:
  "place_order bot_zero_step [] ''XYZUSDT'' ''BUY'' ''LIMIT'' 1 None None
     = (Inl DecimalDivisionByZero, [])
   \<and> place_order_basic bot_plain [] ''BTCUSDT'' ''BUY'' ''STOP_LIMIT'' 1 (Some 100)
     = (Inr 0,
        [Submit \<lparr>param_symbol = ''BTCUSDT'', param_side = ''BUY'', param_type = ''STOP_LIMIT'',
                 param_quantity = 1, param_price = None, param_stopPrice = None,
                 param_timeInForce = None\<rparr>])"
proof -
  have "adjust_precision bot_zero_step ''XYZUSDT'' 1 ''LOT_SIZE'' = Inl DecimalDivisionByZero"
    by (simp add: adjust_precision_def bot_zero_step_def upper_examples decimal_floordiv_def)
  then have "place_order bot_zero_step [] ''XYZUSDT'' ''BUY'' ''LIMIT'' 1 None None
     = (Inl DecimalDivisionByZero, [])"
    by (simp add: place_order_def build_params_def upper_examples)
  moreover have "place_order_basic bot_plain [] ''BTCUSDT'' ''BUY'' ''STOP_LIMIT'' 1 (Some 100)
     = (Inr 0,
        [Submit \<lparr>param_symbol = ''BTCUSDT'', param_side = ''BUY'', param_type = ''STOP_LIMIT'',
                 param_quantity = 1, param_price = None, param_stopPrice = None,
                 param_timeInForce = None\<rparr>])"
    by (simp add: place_order_basic_def upper_examples bot_plain_client)
  ultimately show ?thesis by simp
qed

subsection \<open>Case of symbol and side\<close>






subsection \<open>Stop-limit orders\<close>

text \<open>
  C10. \<^verbatim>\<open>place_order\<close> with STOP\_LIMIT, a price and a stop price submits one request: of
  type "STOP", with the price and the stop price each normalised against the price tick
  (the \<^verbatim>\<open>PRICE_FILTER\<close> rule), the quantity normalised against the quantity step, and the
  time in force "GTC". Its outcome is the answer of the exchange to this request.
\<close>

theorem place_order_stop_limit_request:
  assumes "adjust_precision self (upper self symbol) quantity ''LOT_SIZE'' = Inr qty"
    and "adjust_precision self (upper self symbol) price ''PRICE_FILTER'' = Inr pr"
    and "adjust_precision self (upper self symbol) stop_price ''PRICE_FILTER'' = Inr sp"
    and "req = \<lparr>param_symbol = upper self symbol, param_side = upper self side, param_type = ''STOP'',
                 param_quantity = qty, param_price = Some pr, param_stopPrice = Some sp,
                 param_timeInForce = Some ''GTC''\<rparr>"
  shows "place_order self tr symbol side ''STOP_LIMIT'' quantity (Some price) (Some stop_price)
           = (client self tr req, tr @ [Submit req])"
  using assms by (simp add: place_order_def build_params_def)

theorem place_order_stop_limit_request_witness:
  "adjust_precision bot_rules (upper bot_rules ''XYZUSDT'') 2 ''LOT_SIZE'' = Inr (3 / 2)
   \<and> adjust_precision bot_rules (upper bot_rules ''XYZUSDT'') (401 / 4) ''PRICE_FILTER'' = Inr 100
   \<and> adjust_precision bot_rules (upper bot_rules ''XYZUSDT'') (399 / 4) ''PRICE_FILTER'' = Inr (199 / 2)
   \<and> place_order bot_rules [] ''XYZUSDT'' ''SELL'' ''STOP_LIMIT'' 2 (Some (401 / 4)) (Some (399 / 4))
       = (Inr 0,
          [Submit \<lparr>param_symbol = ''XYZUSDT'', param_side = ''SELL'', param_type = ''STOP'',
                   param_quantity = 3 / 2, param_price = Some 100, param_stopPrice = Some (199 / 2),
                   param_timeInForce = Some ''GTC''\<rparr>])"
proof -
  have a: "adjust_precision bot_rules (upper bot_rules ''XYZUSDT'') 2 ''LOT_SIZE'' = Inr (3 / 2)"
    "adjust_precision bot_rules (upper bot_rules ''XYZUSDT'') (401 / 4) ''PRICE_FILTER'' = Inr 100"
    "adjust_precision bot_rules (upper bot_rules ''XYZUSDT'') (399 / 4) ''PRICE_FILTER'' = Inr (199 / 2)"
    by (simp_all add: upper_examples bot_rules_adjust)
  from place_order_stop_limit_request [OF a refl, where side = "''SELL''" and tr = "[]"] a
  show ?thesis by (simp add: upper_examples bot_rules_client)
qed

end
